theory Spec2Isabelle
  imports Main
begin

section \<open>Data model (API/models.py)\<close>

text \<open>
  Each Django model that the transaction ledger, the refund processor and the approval
  workflow touch is a record; the database is a record of tables. Primary and foreign
  keys are natural numbers, a nullable foreign key is an option. Character fields with
  choices (status, phase, request type, refund type, role) stay strings, because the
  code compares and assigns string literals. Quantities are integers, so that a stock
  that would go below zero is visible. Fields that no modelled operation reads (names
  of customers, dates, images) are left out.

  Money comes in two Python types, and the difference decides what the code does. A
  \<^verbatim>\<open>DecimalField\<close> (a product's price, a refund's amount, a sale's total refunded
  amount) holds a \<^verbatim>\<open>Decimal\<close>; it is modelled by an integer, its amount in the smallest unit,
  and its arithmetic is exact. A \<^verbatim>\<open>FloatField\<close> (the total of a sale or an order, the
  price of a sale item) gives a Python \<^verbatim>\<open>float\<close> when a row is read: \<open>FloatOf c\<close>
  is the float that the column holds once the amount \<open>c\<close> has been saved to it. The
  rounding of that conversion is not modelled, and nothing below depends on it.
\<close>

datatype pyfloat = FloatOf int

record product =
  p_id :: nat
  p_name :: string
  p_price :: int
  p_quantity :: int

record order =
  o_shop :: nat
  o_total_amount :: pyfloat
  o_status :: string

record order_item =
  oi_order :: nat
  oi_product :: nat
  oi_quantity :: int

record sale =
  s_shop :: nat
  s_attendant :: "nat option"
  s_total_amount :: pyfloat
  s_is_refunded :: bool
  s_total_refunded_amount :: int

record sale_item =
  si_sale :: nat
  si_product :: nat
  si_quantity :: int
  si_price :: pyfloat

record refund =
  r_shop :: nat
  r_refund_type :: string
  r_sale :: "nat option"
  r_order :: "nat option"
  r_product :: nat
  r_quantity :: int
  r_refund_amount :: int

record approval_request =
  a_id :: nat
  a_request_type :: string
  a_admin :: nat
  a_shop :: nat
  a_status :: string
  a_phase :: string
  a_user_requesting_role_change :: "nat option"

record profile =
  pr_role :: string

record notification =
  n_user :: nat
  n_title :: string
  n_message :: string
  n_notification_type :: string
  n_type_id :: nat

text \<open>
  The database. Products, sales, orders and profiles are looked up by key. Line items,
  refunds, approval requests and notifications are tables in insertion order, since the
  code filters and sums over them. \<open>sale_seq\<close> and \<open>order_seq\<close> are the next
  primary keys.
\<close>

record state =
  products :: "nat \<rightharpoonup> product"
  sales :: "nat \<rightharpoonup> sale"
  sale_items :: "sale_item list"
  orders :: "nat \<rightharpoonup> order"
  order_items :: "order_item list"
  refunds :: "refund list"
  approval_requests :: "approval_request list"
  profiles :: "nat \<rightharpoonup> profile"
  notifications :: "notification list"
  sale_seq :: nat
  order_seq :: nat

text \<open>
  Every exception the modelled code raises. The ValidationError messages of the source
  are distinguished by constructor:
  \<^item> \<open>NotApproved\<close>: "Refund request is not approved by an admin."
  \<^item> \<open>ExcessiveRefund\<close>: "Refund amount cannot exceed item value."
  \<^item> \<open>InsufficientStock name\<close>: "Insufficient stock for name"
  \<^item> \<open>NoItems\<close>: "This sale must include at least one item."
  \<^item> \<open>NotSellerRequest\<close>: "This is not a Seller approval request."
  \<^item> \<open>OnlySuperUser\<close>: "Only SuperUser can approve Seller requests."
  \<^item> \<open>DoesNotExist\<close>: a lookup by key that finds no row.
  \<^item> \<open>TypeError\<close>, \<open>AttributeError\<close>, \<open>KeyError\<close>: the Python exceptions of
    these names.
\<close>

datatype error =
    NotApproved
  | ExcessiveRefund
  | InsufficientStock string
  | NoItems
  | NotSellerRequest
  | OnlySuperUser
  | DoesNotExist
  | TypeError
  | AttributeError
  | KeyError

text \<open>
  An operation takes the database and returns its outcome together with the database
  as it stands when the operation returns or raises. \<open>atomic\<close> is
  \<^verbatim>\<open>with transaction.atomic():\<close>: when the block raises, every write
  made inside it is rolled back.
\<close>

type_synonym 'a op = "state \<Rightarrow> (error + 'a) \<times> state"

definition atomic :: "'a op \<Rightarrow> 'a op" where
  "atomic body st =
     (case body st of
        (Inl e, _) \<Rightarrow> (Inl e, st)
      | (Inr v, st') \<Rightarrow> (Inr v, st'))"

section \<open>Python values and Django models\<close>

text \<open>
  An operand of money arithmetic, tagged with its Python type. Python subtracts a
  Decimal from a Decimal exactly and refuses to subtract across float and Decimal:
  \<^verbatim>\<open>float - Decimal\<close> and \<^verbatim>\<open>Decimal - float\<close> raise TypeError. (Subtraction of two
  floats rounds; the source has none, and its last equation is here only to make the
  function total.) A comparison across float and Decimal is allowed and compares the
  two values.
\<close>

datatype pyvalue = PyFloat pyfloat | PyDecimal int

fun py_sub :: "pyvalue \<Rightarrow> pyvalue \<Rightarrow> error + pyvalue" where
  "py_sub (PyDecimal a) (PyDecimal b) = Inr (PyDecimal (a - b))"
| "py_sub (PyFloat a) (PyDecimal b) = Inl TypeError"
| "py_sub (PyDecimal a) (PyFloat b) = Inl TypeError"
| "py_sub (PyFloat (FloatOf a)) (PyFloat (FloatOf b)) = Inr (PyFloat (FloatOf (a - b)))"

fun py_amount :: "pyvalue \<Rightarrow> int" where
  "py_amount (PyDecimal a) = a"
| "py_amount (PyFloat (FloatOf a)) = a"

definition py_ge :: "pyvalue \<Rightarrow> pyvalue \<Rightarrow> bool" where
  "py_ge x y = (py_amount x \<ge> py_amount y)"

text \<open>What a \<^verbatim>\<open>FloatField\<close> stores when a row is saved: \<^verbatim>\<open>float(value)\<close>.\<close>

fun to_float :: "pyvalue \<Rightarrow> pyfloat" where
  "to_float (PyFloat f) = f"
| "to_float (PyDecimal a) = FloatOf a"

text \<open>
  The constructor of a Django model takes keyword arguments and raises TypeError for
  a keyword that does not name a field of the model. The lists are the keywords each
  model of \<^verbatim>\<open>models.py\<close> accepts (its fields, and for a foreign key also the name of
  the key column).
\<close>

definition model_init :: "string list \<Rightarrow> string list \<Rightarrow> error + unit" where
  "model_init field_names kwargs =
     (if list_all (\<lambda>k. k \<in> set field_names) kwargs then Inr () else Inl TypeError)"

definition Sale_fields :: "string list" where
  "Sale_fields =
     [''id'', ''pk'', ''shop'', ''shop_id'', ''attendant'', ''attendant_id'', ''sale_date'',
      ''total_amount'', ''mode_of_payment'', ''is_complete'', ''created_at'', ''updated_at'',
      ''is_refunded'', ''refund_date'', ''total_refunded_amount'']"

definition SaleItem_fields :: "string list" where
  "SaleItem_fields =
     [''id'', ''pk'', ''sale'', ''sale_id'', ''product'', ''product_id'', ''quantity'', ''price'']"

definition Order_fields :: "string list" where
  "Order_fields =
     [''id'', ''pk'', ''shop'', ''shop_id'', ''customer_name'', ''customer_phone'',
      ''customer_location'', ''order_date'', ''total_amount'', ''status'', ''created_at'',
      ''updated_at'']"

definition OrderItem_fields :: "string list" where
  "OrderItem_fields =
     [''id'', ''pk'', ''order'', ''order_id'', ''product'', ''product_id'', ''quantity'']"

text \<open>
  The data attributes of a \<^verbatim>\<open>django.contrib.auth\<close> user, with the reverse accessors that
  \<^verbatim>\<open>models.py\<close> adds to it. The role of a user is a field of \<^verbatim>\<open>Profile\<close>, not of the
  user.
\<close>

definition User_attributes :: "string list" where
  "User_attributes =
     [''id'', ''pk'', ''password'', ''last_login'', ''is_superuser'', ''username'',
      ''first_name'', ''last_name'', ''email'', ''is_staff'', ''is_active'', ''date_joined'',
      ''groups'', ''user_permissions'', ''profile'', ''admin_shops'', ''attendant_shops'',
      ''sale_set'', ''notifications'', ''approval_requests'', ''seller_approval_requests'']"

section \<open>Order (API/models.py)\<close>

text \<open>\<^verbatim>\<open>Order.get_items_quantity\<close>: the sum of the quantities of the order's line items.\<close>

definition get_items_quantity :: "state \<Rightarrow> nat \<Rightarrow> int" where
  "get_items_quantity st oid =
     sum_list (map oi_quantity (filter (\<lambda>item. oi_order item = oid) (order_items st)))"

section \<open>Refund (API/models.py)\<close>

text \<open>
  \<^verbatim>\<open>ApprovalRequest.objects.filter(shop=self.shop, request_type='Refund',
  status='Approved').first()\<close>
\<close>

definition approved_refund_request :: "state \<Rightarrow> nat \<Rightarrow> approval_request option" where
  "approved_refund_request st shop =
     find (\<lambda>a. a_shop a = shop \<and> a_request_type a = ''Refund'' \<and> a_status a = ''Approved'')
       (approval_requests st)"

text \<open>
  \<^verbatim>\<open>Refund.clean\<close>: the two checks, in the order of the source. It writes nothing. The
  amount, the price and their product are Decimals.
\<close>

definition Refund_clean :: "refund \<Rightarrow> state \<Rightarrow> error + unit" where
  "Refund_clean r st =
     (case approved_refund_request st (r_shop r) of
        None \<Rightarrow> Inl NotApproved
      | Some approval_request \<Rightarrow>
          (case products st (r_product r) of
             None \<Rightarrow> Inl DoesNotExist
           | Some product \<Rightarrow>
               if r_refund_amount r > p_price product * r_quantity r
               then Inl ExcessiveRefund
               else Inr ()))"

text \<open>
  The branch of \<^verbatim>\<open>Refund.save\<close> for \<^verbatim>\<open>refund_type == 'Sale' and self.sale\<close>. Its first
  statement, \<^verbatim>\<open>sale.total_amount -= self.refund_amount\<close>, subtracts the Decimal of a
  \<^verbatim>\<open>DecimalField\<close> from the float of a \<^verbatim>\<open>FloatField\<close>. The statements after it are
  modelled as written: the sum of two Decimals, the two saves (the total goes back to
  its column as a float), the stock, and the comparison of the Decimal total refunded
  amount with the new total.
\<close>

definition refund_sale :: "refund \<Rightarrow> nat \<Rightarrow> unit op" where
  "refund_sale r sid st =
     (case sales st sid of
        None \<Rightarrow> (Inl DoesNotExist, st)
      | Some sale0 \<Rightarrow>
          (case py_sub (PyFloat (s_total_amount sale0)) (PyDecimal (r_refund_amount r)) of
             Inl e \<Rightarrow> (Inl e, st)
           | Inr total_amount \<Rightarrow>
               let total_refunded_amount = s_total_refunded_amount sale0 + r_refund_amount r;
                   sale1 = sale0\<lparr>s_total_amount := to_float total_amount,
                                 s_total_refunded_amount := total_refunded_amount\<rparr>;
                   st1 = st\<lparr>sales := (sales st)(sid \<mapsto> sale1)\<rparr>
               in (case products st1 (r_product r) of
                     None \<Rightarrow> (Inl DoesNotExist, st1)
                   | Some product \<Rightarrow>
                       let st2 = st1\<lparr>products := (products st1)
                                   (r_product r \<mapsto>
                                      product\<lparr>p_quantity := p_quantity product + r_quantity r\<rparr>)\<rparr>
                       in if py_ge (PyDecimal total_refunded_amount) total_amount
                          then (Inr (), st2\<lparr>sales := (sales st2)
                                               (sid \<mapsto> sale1\<lparr>s_is_refunded := True\<rparr>)\<rparr>)
                          else (Inr (), st2))))"

text \<open>
  The branch for \<^verbatim>\<open>refund_type == 'Order' and self.order\<close>. Its first statement,
  \<^verbatim>\<open>order.total_amount -= self.refund_amount\<close>, is again a float minus a Decimal. The
  refund row is already in the table when \<^verbatim>\<open>order.refunds.all()\<close> is summed.
\<close>

definition refund_order :: "refund \<Rightarrow> nat \<Rightarrow> unit op" where
  "refund_order r oid st =
     (case orders st oid of
        None \<Rightarrow> (Inl DoesNotExist, st)
      | Some order0 \<Rightarrow>
          (case py_sub (PyFloat (o_total_amount order0)) (PyDecimal (r_refund_amount r)) of
             Inl e \<Rightarrow> (Inl e, st)
           | Inr total_amount \<Rightarrow>
               let order1 = order0\<lparr>o_total_amount := to_float total_amount\<rparr>;
                   st1 = st\<lparr>orders := (orders st)(oid \<mapsto> order1)\<rparr>;
                   remaining_items = get_items_quantity st1 oid;
                   refunded_items =
                     sum_list (map r_quantity
                       (filter (\<lambda>x. r_order x = Some oid) (refunds st1)));
                   st2 = (if refunded_items \<ge> remaining_items
                          then st1\<lparr>orders := (orders st1)
                                       (oid \<mapsto> order1\<lparr>o_status := ''Cancelled''\<rparr>)\<rparr>
                          else st1)
               in (case products st2 (r_product r) of
                     None \<Rightarrow> (Inl DoesNotExist, st2)
                   | Some product \<Rightarrow>
                       (Inr (), st2\<lparr>products := (products st2)
                          (r_product r \<mapsto>
                             product\<lparr>p_quantity := p_quantity product + r_quantity r\<rparr>)\<rparr>))))"

text \<open>
  The body of the atomic block of \<^verbatim>\<open>Refund.save\<close>: the refund row is inserted first,
  then the if/elif on the refund type and the reference. A model instance is true and
  \<^verbatim>\<open>None\<close> is false, so \<^verbatim>\<open>refund_type == 'Sale' and self.sale\<close> holds exactly when
  the type is 'Sale' and the reference is set.
\<close>

definition Refund_save_body :: "refund \<Rightarrow> unit op" where
  "Refund_save_body r st =
     (let st1 = st\<lparr>refunds := refunds st @ [r]\<rparr>
      in case (if r_refund_type r = ''Sale'' then r_sale r else None) of
           Some sid \<Rightarrow> refund_sale r sid st1
         | None \<Rightarrow>
             (case (if r_refund_type r = ''Order'' then r_order r else None) of
                Some oid \<Rightarrow> refund_order r oid st1
              | None \<Rightarrow> (Inr (), st1)))"

text \<open>\<^verbatim>\<open>Refund.save\<close>: \<^verbatim>\<open>self.clean()\<close>, then the atomic block.\<close>

definition Refund_save :: "refund \<Rightarrow> unit op" where
  "Refund_save r st =
     (case Refund_clean r st of
        Inl e \<Rightarrow> (Inl e, st)
      | Inr _ \<Rightarrow> atomic (Refund_save_body r) st)"

section \<open>Sales (API/serializers.py)\<close>

text \<open>
  The validated data that \<^verbatim>\<open>SaleSerializer.create\<close> receives is a dictionary. The
  serializer declares its lines as \<^verbatim>\<open>items = SaleItemSerializer(many=True,
  source='sale_items')\<close>, so validation stores them under the key \<^verbatim>\<open>sale_items\<close>;
  \<^verbatim>\<open>create\<close> reads the key \<^verbatim>\<open>items\<close>. Both keys are modelled, each present or
  absent. A line carries the product instance that validation loaded
  (\<^verbatim>\<open>item_data['product']\<close>), not a key: the loop reads the stock and the price from
  that instance and saves that instance.
\<close>

record sale_line =
  sl_product :: product
  sl_quantity :: int

record sale_data =
  sd_shop :: nat
  sd_attendant :: "nat option"
  sd_sale_items :: "sale_line list option"
  sd_items :: "sale_line list option"

text \<open>The keys of the dictionary, which \<^verbatim>\<open>**validated_data\<close> turns into keywords.\<close>

definition sale_data_keys :: "sale_data \<Rightarrow> string list" where
  "sale_data_keys validated_data =
     [''shop'', ''attendant'']
     @ (case sd_sale_items validated_data of None \<Rightarrow> [] | Some _ \<Rightarrow> [''sale_items''])
     @ (case sd_items validated_data of None \<Rightarrow> [] | Some _ \<Rightarrow> [''items''])"

text \<open>
  \<^verbatim>\<open>Sale.objects.create(**validated_data)\<close>: the constructor first, then the insert of
  a row with the defaults of the model. It returns the key and the instance.
\<close>

definition Sale_objects_create :: "sale_data \<Rightarrow> (nat \<times> sale) op" where
  "Sale_objects_create validated_data st =
     (case model_init Sale_fields (sale_data_keys validated_data) of
        Inl e \<Rightarrow> (Inl e, st)
      | Inr _ \<Rightarrow>
          let sid = sale_seq st;
              sale0 = \<lparr>s_shop = sd_shop validated_data,
                       s_attendant = sd_attendant validated_data,
                       s_total_amount = FloatOf 0, s_is_refunded = False,
                       s_total_refunded_amount = 0\<rparr>
          in (Inr (sid, sale0),
              st\<lparr>sales := (sales st)(sid \<mapsto> sale0), sale_seq := Suc sid\<rparr>))"

text \<open>
  The loop over \<^verbatim>\<open>items_data\<close>, with the running total (a Decimal: an int 0 plus
  Decimal prices times int quantities). A line that fails the stock check raises at
  once; the rows written for the lines before it are still in the state that is
  returned with the error. The price of the line goes to a \<^verbatim>\<open>FloatField\<close>.
\<close>

fun sale_lines :: "nat \<Rightarrow> sale_line list \<Rightarrow> int \<Rightarrow> int op" where
  "sale_lines sid [] total' st = (Inr total', st)"
| "sale_lines sid (item_data # rest) total' st =
     (let product = sl_product item_data;
          quantity = sl_quantity item_data
      in if p_quantity product < quantity
         then (Inl (InsufficientStock (p_name product)), st)
         else
           (case model_init SaleItem_fields [''sale'', ''product'', ''quantity'', ''price''] of
              Inl e \<Rightarrow> (Inl e, st)
            | Inr _ \<Rightarrow>
                let st1 = st\<lparr>sale_items := sale_items st @
                             [\<lparr>si_sale = sid, si_product = p_id product,
                               si_quantity = quantity,
                               si_price = to_float (PyDecimal (p_price product))\<rparr>]\<rparr>;
                    product1 = product\<lparr>p_quantity := p_quantity product - quantity\<rparr>;
                    st2 = st1\<lparr>products := (products st1)(p_id product1 \<mapsto> product1)\<rparr>
                in sale_lines sid rest (total' + p_price product1 * quantity) st2))"

text \<open>The atomic block of \<^verbatim>\<open>SaleSerializer.create\<close>; it returns the key of the new sale.\<close>

definition sale_create_body :: "sale_data \<Rightarrow> sale_line list \<Rightarrow> nat op" where
  "sale_create_body validated_data items_data st =
     (case Sale_objects_create validated_data st of
        (Inl e, st1) \<Rightarrow> (Inl e, st1)
      | (Inr (sid, sale0), st1) \<Rightarrow>
          (case sale_lines sid items_data 0 st1 of
             (Inl e, st2) \<Rightarrow> (Inl e, st2)
           | (Inr total', st2) \<Rightarrow>
               (Inr sid, st2\<lparr>sales := (sales st2)
                  (sid \<mapsto> sale0\<lparr>s_total_amount := to_float (PyDecimal total')\<rparr>)\<rparr>)))"

text \<open>
  \<^verbatim>\<open>SaleSerializer.create\<close>. \<^verbatim>\<open>validated_data.get('items')\<close> is \<^verbatim>\<open>None\<close> when the
  key is absent, and \<^verbatim>\<open>not items_data\<close> holds for \<^verbatim>\<open>None\<close> and for the empty list.
  The key is read, not removed, so it is still in the dictionary that is passed on.
\<close>

definition SaleSerializer_create :: "sale_data \<Rightarrow> nat op" where
  "SaleSerializer_create validated_data st =
     (case sd_items validated_data of
        None \<Rightarrow> (Inl NoItems, st)
      | Some items_data \<Rightarrow>
          if items_data = [] then (Inl NoItems, st)
          else atomic (sale_create_body validated_data items_data) st)"

section \<open>Orders (API/serializers.py)\<close>

text \<open>
  An order item of the validated data is a dictionary; the loop of
  \<^verbatim>\<open>OrderSerializer.create\<close> reads its keys \<^verbatim>\<open>id\<close> and \<^verbatim>\<open>quantity\<close>, and a key that
  is absent raises KeyError. (\<^verbatim>\<open>OrderItemSerializer\<close> declares no field, so the
  dictionaries that validation produces have neither key.) The product row is fetched
  anew for every line. The line item is created with the keywords \<^verbatim>\<open>order\<close>,
  \<^verbatim>\<open>item\<close> and \<^verbatim>\<open>quantity\<close>.
\<close>

record order_line =
  ol_id :: "nat option"
  ol_quantity :: "int option"

record order_data =
  od_shop :: nat
  od_status :: string
  od_items :: "order_line list"

fun order_lines :: "nat \<Rightarrow> order_line list \<Rightarrow> int \<Rightarrow> int op" where
  "order_lines oid [] total' st = (Inr total', st)"
| "order_lines oid (item_data # rest) total' st =
     (case ol_id item_data of
        None \<Rightarrow> (Inl KeyError, st)
      | Some pid \<Rightarrow>
          (case products st pid of
             None \<Rightarrow> (Inl DoesNotExist, st)
           | Some product \<Rightarrow>
               (case ol_quantity item_data of
                  None \<Rightarrow> (Inl KeyError, st)
                | Some quantity \<Rightarrow>
                    if p_quantity product < quantity
                    then (Inl (InsufficientStock (p_name product)), st)
                    else
                      (case model_init OrderItem_fields [''order'', ''item'', ''quantity''] of
                         Inl e \<Rightarrow> (Inl e, st)
                       | Inr _ \<Rightarrow>
                           let st1 = st\<lparr>order_items := order_items st @
                                        [\<lparr>oi_order = oid, oi_product = pid,
                                          oi_quantity = quantity\<rparr>]\<rparr>;
                               product1 = product\<lparr>p_quantity := p_quantity product - quantity\<rparr>;
                               st2 = st1\<lparr>products := (products st1)(pid \<mapsto> product1)\<rparr>
                           in order_lines oid rest
                                (total' + p_price product1 * quantity) st2))))"

text \<open>
  \<^verbatim>\<open>Order.objects.create(**validated_data)\<close>, after \<^verbatim>\<open>items\<close> has been popped: the
  keys left are fields of the model.
\<close>

definition Order_objects_create :: "order_data \<Rightarrow> (nat \<times> order) op" where
  "Order_objects_create validated_data st =
     (case model_init Order_fields [''shop'', ''status''] of
        Inl e \<Rightarrow> (Inl e, st)
      | Inr _ \<Rightarrow>
          let oid = order_seq st;
              order0 = \<lparr>o_shop = od_shop validated_data, o_total_amount = FloatOf 0,
                        o_status = od_status validated_data\<rparr>
          in (Inr (oid, order0),
              st\<lparr>orders := (orders st)(oid \<mapsto> order0), order_seq := Suc oid\<rparr>))"

text \<open>
  The atomic block of \<^verbatim>\<open>OrderSerializer.create\<close>. The total starts as the int 0 and
  grows by Decimals; the total of the order is saved to a \<^verbatim>\<open>FloatField\<close>.
\<close>

definition order_create_body :: "order_data \<Rightarrow> nat op" where
  "order_create_body validated_data st =
     (case Order_objects_create validated_data st of
        (Inl e, st1) \<Rightarrow> (Inl e, st1)
      | (Inr (oid, order0), st1) \<Rightarrow>
          (case order_lines oid (od_items validated_data) 0 st1 of
             (Inl e, st2) \<Rightarrow> (Inl e, st2)
           | (Inr total', st2) \<Rightarrow>
               (Inr oid, st2\<lparr>orders := (orders st2)
                  (oid \<mapsto> order0\<lparr>o_total_amount := to_float (PyDecimal total')\<rparr>)\<rparr>)))"

definition OrderSerializer_create :: "order_data \<Rightarrow> nat op" where
  "OrderSerializer_create validated_data st = atomic (order_create_body validated_data) st"

section \<open>Notifications (API/views.py)\<close>

text \<open>
  \<^verbatim>\<open>send_notification(user, title, message, notification_type, type_id)\<close>. None of
  the five parameters has a default: a call that leaves \<^verbatim>\<open>notification_type\<close> or
  \<^verbatim>\<open>type_id\<close> out (\<open>None\<close> here) raises TypeError before the body runs.
\<close>

definition send_notification ::
  "nat \<Rightarrow> string \<Rightarrow> string \<Rightarrow> string option \<Rightarrow> nat option \<Rightarrow> unit op" where
  "send_notification user title message notification_type type_id st =
     (case notification_type of
        None \<Rightarrow> (Inl TypeError, st)
      | Some nt \<Rightarrow>
          (case type_id of
             None \<Rightarrow> (Inl TypeError, st)
           | Some ti \<Rightarrow>
               (Inr (), st\<lparr>notifications := notifications st @
                  [\<lparr>n_user = user, n_title = title, n_message = message,
                    n_notification_type = nt, n_type_id = ti\<rparr>]\<rparr>)))"

section \<open>Approval requests (API/models.py, API/views.py)\<close>

text \<open>\<^verbatim>\<open>self.save()\<close> of an approval request that is already in the table.\<close>

definition save_approval_request :: "approval_request \<Rightarrow> state \<Rightarrow> state" where
  "save_approval_request a st =
     st\<lparr>approval_requests :=
          map (\<lambda>x. if a_id x = a_id a then a else x) (approval_requests st)\<rparr>"

text \<open>
  \<^verbatim>\<open>ApprovalRequest.approve_seller\<close>. The method has no parameter for the approving
  actor. After the test of the request type it reads \<^verbatim>\<open>self.admin.role\<close>, an
  attribute of the user who created the request; reading an attribute that a user does
  not have raises AttributeError. The rest is modelled as written, with the role of
  that user's profile for the value: the test against 'SuperUser', the new role of
  \<^verbatim>\<open>self.admin.profile\<close>, the phase.
\<close>

definition approve_seller :: "approval_request \<Rightarrow> unit op" where
  "approve_seller self st =
     (if a_request_type self \<noteq> ''Seller'' then (Inl NotSellerRequest, st)
      else if ''role'' \<notin> set User_attributes then (Inl AttributeError, st)
      else
        case profiles st (a_admin self) of
          None \<Rightarrow> (Inl DoesNotExist, st)
        | Some prof \<Rightarrow>
            if pr_role prof \<noteq> ''SuperUser'' then (Inl OnlySuperUser, st)
            else
              let st1 = st\<lparr>profiles := (profiles st)(a_admin self \<mapsto> prof\<lparr>pr_role := ''Admin''\<rparr>)\<rparr>
              in (Inr (), save_approval_request (self\<lparr>a_phase := ''Completed''\<rparr>) st1))"

text \<open>
  \<^verbatim>\<open>ApprovalRequestViewSet.approve\<close>, the endpoint that approves a request.
  \<open>actor\<close> is \<^verbatim>\<open>request.user\<close>; the body never reads it. The status it writes is the
  lower-case string of the source. The view is not in a transaction: the status is
  saved before \<^verbatim>\<open>send_notification\<close> is called with three arguments. (The message
  names the shop; shop names are not in the model.)
\<close>

definition approve :: "nat \<Rightarrow> nat \<Rightarrow> unit op" where
  "approve actor pk st =
     (case find (\<lambda>a. a_id a = pk) (approval_requests st) of
        None \<Rightarrow> (Inl DoesNotExist, st)
      | Some approval_request \<Rightarrow>
          let st1 = save_approval_request (approval_request\<lparr>a_status := ''approved''\<rparr>) st
          in send_notification (a_admin approval_request) ''Request Approved''
               ''The request has been approved.'' None None st1)"

section \<open>Sequences of requests\<close>

datatype request =
    CreateSale sale_data
  | CreateOrder order_data
  | ApplyRefund refund

text \<open>The database after a request, whether it succeeded or failed.\<close>

fun handle :: "request \<Rightarrow> state \<Rightarrow> state" where
  "handle (CreateSale d) st = snd (SaleSerializer_create d st)"
| "handle (CreateOrder d) st = snd (OrderSerializer_create d st)"
| "handle (ApplyRefund r) st = snd (Refund_save r st)"

fun run :: "request list \<Rightarrow> state \<Rightarrow> state" where
  "run [] st = st"
| "run (rq # rqs) st = run rqs (handle rq st)"

definition stock_nonneg :: "state \<Rightarrow> bool" where
  "stock_nonneg st = (\<forall>pid p. products st pid = Some p \<longrightarrow> 0 \<le> p_quantity p)"

section \<open>Example data\<close>

text \<open>
  A small shop: two products, one sale of 100 (two shirts at 50), one order with line
  items of quantity 3 and 2, no refund yet and no approval request.
\<close>

definition demo_db :: state where
  "demo_db =
     \<lparr>products = [1 \<mapsto> \<lparr>p_id = 1, p_name = ''shirt'', p_price = 50, p_quantity = 10\<rparr>,
                  2 \<mapsto> \<lparr>p_id = 2, p_name = ''hat'', p_price = 20, p_quantity = 4\<rparr>],
      sales = [1 \<mapsto> \<lparr>s_shop = 1, s_attendant = Some 7, s_total_amount = FloatOf 100,
                       s_is_refunded = False, s_total_refunded_amount = 0\<rparr>],
      sale_items = [\<lparr>si_sale = 1, si_product = 1, si_quantity = 2, si_price = FloatOf 50\<rparr>],
      orders = [1 \<mapsto> \<lparr>o_shop = 1, o_total_amount = FloatOf 190, o_status = ''Pending''\<rparr>],
      order_items = [\<lparr>oi_order = 1, oi_product = 1, oi_quantity = 3\<rparr>,
                     \<lparr>oi_order = 1, oi_product = 2, oi_quantity = 2\<rparr>],
      refunds = [],
      approval_requests = [],
      profiles = [7 \<mapsto> \<lparr>pr_role = ''Admin''\<rparr>],
      notifications = [],
      sale_seq = 2,
      order_seq = 2\<rparr>"

text \<open>The same shop once its admin's refund request has been approved.\<close>

definition refund_approval :: approval_request where
  "refund_approval =
     \<lparr>a_id = 1, a_request_type = ''Refund'', a_admin = 7, a_shop = 1,
      a_status = ''Approved'', a_phase = ''Pending'', a_user_requesting_role_change = None\<rparr>"

definition approved_db :: state where
  "approved_db = demo_db\<lparr>approval_requests := [refund_approval]\<rparr>"

text \<open>A refund of 30 for one shirt of sale 1.\<close>

definition demo_refund :: refund where
  "demo_refund = \<lparr>r_shop = 1, r_refund_type = ''Sale'', r_sale = Some 1, r_order = None,
                   r_product = 1, r_quantity = 1, r_refund_amount = 30\<rparr>"

text \<open>A refund of 80 for one shirt, whose price is 50.\<close>

definition excessive_refund :: refund where
  "excessive_refund = \<lparr>r_shop = 1, r_refund_type = ''Sale'', r_sale = Some 1, r_order = None,
                   r_product = 1, r_quantity = 1, r_refund_amount = 80\<rparr>"

text \<open>A refund of type Sale whose sale reference is not set (an order is named instead).\<close>

definition dangling_refund :: refund where
  "dangling_refund = \<lparr>r_shop = 1, r_refund_type = ''Sale'', r_sale = None, r_order = Some 1,
                   r_product = 1, r_quantity = 1, r_refund_amount = 30\<rparr>"

text \<open>A refund of type Order with no reference at all.\<close>

definition targetless_refund :: refund where
  "targetless_refund = \<lparr>r_shop = 1, r_refund_type = ''Order'', r_sale = None, r_order = None,
                   r_product = 2, r_quantity = 1, r_refund_amount = 20\<rparr>"

text \<open>A refund of 150 for the three shirts of order 1.\<close>

definition order_refund_shirts :: refund where
  "order_refund_shirts = \<lparr>r_shop = 1, r_refund_type = ''Order'', r_sale = None, r_order = Some 1,
                   r_product = 1, r_quantity = 3, r_refund_amount = 150\<rparr>"

text \<open>
  Lines that the stock covers (two shirts, three hats), and lines whose second asks
  for nine hats when four are in stock.
\<close>

definition good_lines :: "sale_line list" where
  "good_lines =
     [\<lparr>sl_product = \<lparr>p_id = 1, p_name = ''shirt'', p_price = 50, p_quantity = 10\<rparr>,
       sl_quantity = 2\<rparr>,
      \<lparr>sl_product = \<lparr>p_id = 2, p_name = ''hat'', p_price = 20, p_quantity = 4\<rparr>,
       sl_quantity = 3\<rparr>]"

definition short_lines :: "sale_line list" where
  "short_lines =
     [\<lparr>sl_product = \<lparr>p_id = 1, p_name = ''shirt'', p_price = 50, p_quantity = 10\<rparr>,
       sl_quantity = 2\<rparr>,
      \<lparr>sl_product = \<lparr>p_id = 2, p_name = ''hat'', p_price = 20, p_quantity = 4\<rparr>,
       sl_quantity = 9\<rparr>]"

text \<open>
  The validated data of a sale as validation builds it (the lines under
  \<^verbatim>\<open>sale_items\<close>), and as \<^verbatim>\<open>create\<close> expects it (the lines under \<^verbatim>\<open>items\<close>).
\<close>

definition validated_sale :: "sale_line list \<Rightarrow> sale_data" where
  "validated_sale lines =
     \<lparr>sd_shop = 1, sd_attendant = Some 7, sd_sale_items = Some lines, sd_items = None\<rparr>"

definition keyed_sale :: "sale_line list \<Rightarrow> sale_data" where
  "keyed_sale lines =
     \<lparr>sd_shop = 1, sd_attendant = Some 7, sd_sale_items = None, sd_items = Some lines\<rparr>"

text \<open>Orders for two shirts and three hats, for two shirts and nine hats, and for nothing.\<close>

definition good_order :: order_data where
  "good_order =
     \<lparr>od_shop = 1, od_status = ''Pending'',
      od_items = [\<lparr>ol_id = Some 1, ol_quantity = Some 2\<rparr>,
                  \<lparr>ol_id = Some 2, ol_quantity = Some 3\<rparr>]\<rparr>"

definition short_order :: order_data where
  "short_order =
     \<lparr>od_shop = 1, od_status = ''Pending'',
      od_items = [\<lparr>ol_id = Some 1, ol_quantity = Some 2\<rparr>,
                  \<lparr>ol_id = Some 2, ol_quantity = Some 9\<rparr>]\<rparr>"


text \<open>A sale, an order and two refunds, one after the other.\<close>

definition demo_requests :: "request list" where
  "demo_requests =
     [CreateSale (keyed_sale good_lines), CreateOrder good_order,
      ApplyRefund demo_refund, ApplyRefund targetless_refund]"

text \<open>
  A Seller request made by user 9, a customer; user 2 is a SuperUser and user 3 an
  attendant.
\<close>

definition seller_request :: approval_request where
  "seller_request =
     \<lparr>a_id = 1, a_request_type = ''Seller'', a_admin = 9, a_shop = 1,
      a_status = ''Pending'', a_phase = ''Pending'', a_user_requesting_role_change = Some 9\<rparr>"

definition seller_db :: state where
  "seller_db = demo_db\<lparr>approval_requests := [seller_request],
                       profiles := [2 \<mapsto> \<lparr>pr_role = ''SuperUser''\<rparr>,
                                    3 \<mapsto> \<lparr>pr_role = ''Attendant''\<rparr>,
                                    9 \<mapsto> \<lparr>pr_role = ''Customer''\<rparr>]\<rparr>"

section \<open>Basic facts\<close>

lemma atomic_snd_cases: "snd (atomic body st) = st \<or> snd (atomic body st) = snd (body st)"
  by (simp add: atomic_def split: prod.splits sum.splits)

lemma Refund_clean_product:
  "Refund_clean r st = Inr () \<Longrightarrow> \<exists>p. products st (r_product r) = Some p"
  by (auto simp: Refund_clean_def split: option.splits if_splits)

section \<open>Refund validation\<close>

text \<open>
  C3. When no approval request of type Refund for the refund's shop has status
  Approved, saving the refund fails with NotApproved and the whole database (the target
  sale or order, the stock of every product, the table of refunds) is as it was.
\<close>

theorem refund_not_approved:
  assumes "\<not> (\<exists>a \<in> set (approval_requests st).
              a_shop a = r_shop r \<and> a_request_type a = ''Refund'' \<and> a_status a = ''Approved'')"
  shows "Refund_save r st = (Inl NotApproved, st)"
proof -
  have "approved_refund_request st (r_shop r) = None"
    using assms by (auto simp: approved_refund_request_def find_None_iff)
  then show ?thesis
    by (simp add: Refund_save_def Refund_clean_def)
qed

theorem refund_not_approved_witness:
  "Refund_save demo_refund demo_db = (Inl NotApproved, demo_db)"
  using refund_not_approved [of demo_db demo_refund]
  by (simp add: demo_db_def demo_refund_def)


text \<open>
  C4 as stated fails: \<^verbatim>\<open>Refund.clean\<close> tests the approval first, so a refund that is
  too large and has no approved request is refused with NotApproved.
\<close>

theorem excessive_refund_counterexample:
  "\<not> (\<forall>r st p. products st (r_product r) = Some p \<and>
                 r_refund_amount r > p_price p * r_quantity r \<longrightarrow>
                 fst (Refund_save r st) = Inl ExcessiveRefund)"
proof
  assume "\<forall>r st p. products st (r_product r) = Some p \<and>
                 r_refund_amount r > p_price p * r_quantity r \<longrightarrow>
                 fst (Refund_save r st) = Inl ExcessiveRefund"
  then have "products demo_db (r_product excessive_refund) =
               Some \<lparr>p_id = 1, p_name = ''shirt'', p_price = 50, p_quantity = 10\<rparr> \<and>
             r_refund_amount excessive_refund >
               p_price \<lparr>p_id = 1, p_name = ''shirt'', p_price = 50, p_quantity = 10\<rparr>
                 * r_quantity excessive_refund \<longrightarrow>
             fst (Refund_save excessive_refund demo_db) = Inl ExcessiveRefund"
    by blast
  then show False
    by (simp add: demo_db_def excessive_refund_def Refund_save_def Refund_clean_def
        approved_refund_request_def)
qed

text \<open>
  C4, amended. A refund whose amount exceeds the product's price times the refunded
  quantity always fails and leaves the whole database as it was (no refund row, no
  change of a sale, an order or a stock); the error is ExcessiveRefund when an Approved
  Refund request for the shop exists, and NotApproved when none does.
\<close>

theorem excessive_refund_rejected:
  assumes "products st (r_product r) = Some p"
    and "r_refund_amount r > p_price p * r_quantity r"
  shows "Refund_save r st =
           (Inl (if approved_refund_request st (r_shop r) = None
                 then NotApproved else ExcessiveRefund), st)"
  using assms
  by (auto simp: Refund_save_def Refund_clean_def split: option.splits)

theorem excessive_refund_rejected_witness:
  "Refund_save excessive_refund approved_db = (Inl ExcessiveRefund, approved_db)"
  using excessive_refund_rejected [of approved_db excessive_refund
      "\<lparr>p_id = 1, p_name = ''shirt'', p_price = 50, p_quantity = 10\<rparr>"]
  by (simp add: approved_db_def demo_db_def excessive_refund_def approved_refund_request_def
      refund_approval_def)

text \<open>
  C10. A refund that passes validation with refund type Sale and no sale reference, or
  refund type Order and no order reference, is saved and nothing else changes: the new
  database is the old one with the refund row appended.
\<close>

theorem refund_without_target:
  assumes "Refund_clean r st = Inr ()"
    and "(r_refund_type r = ''Sale'' \<and> r_sale r = None) \<or>
         (r_refund_type r = ''Order'' \<and> r_order r = None)"
  shows "Refund_save r st = (Inr (), st\<lparr>refunds := refunds st @ [r]\<rparr>)"
  using assms
  by (auto simp: Refund_save_def Refund_save_body_def atomic_def Let_def)

theorem refund_without_target_witness:
  "Refund_save dangling_refund approved_db =
     (Inr (), approved_db\<lparr>refunds := [dangling_refund]\<rparr>)"
proof -
  have c: "Refund_clean dangling_refund approved_db = Inr ()"
    by (simp add: Refund_clean_def approved_refund_request_def approved_db_def demo_db_def
        refund_approval_def dangling_refund_def)
  have r: "refunds approved_db = []"
    by (simp add: approved_db_def demo_db_def)
  show ?thesis
    using refund_without_target [OF c] r by (simp add: dangling_refund_def)
qed
section \<open>Refunds against a sale or an order\<close>

lemma refund_sale_raises:
  "sales st sid = Some s \<Longrightarrow> refund_sale r sid st = (Inl TypeError, st)"
  by (simp add: refund_sale_def)

lemma refund_order_raises:
  "orders st oid = Some ord \<Longrightarrow> refund_order r oid st = (Inl TypeError, st)"
  by (simp add: refund_order_def)

lemma refund_sale_fails: "\<exists>e. refund_sale r sid st = (Inl e, st)"
  by (cases "sales st sid") (simp_all add: refund_sale_def)

lemma refund_order_fails: "\<exists>e. refund_order r oid st = (Inl e, st)"
  by (cases "orders st oid") (simp_all add: refund_order_def)

text \<open>
  C1 does not hold of the code. A refund that passes validation and whose target is a
  sale in the database is not applied: \<^verbatim>\<open>sale.total_amount -= self.refund_amount\<close>
  is a float minus a Decimal, Python raises TypeError, and the atomic block rolls back
  the refund row that had been saved. The sale keeps its total, its total refunded
  amount and its flag. The witness is the sale of 100 and the approved refund of 30.
\<close>

theorem sale_refund_raises:
  assumes "Refund_clean r st = Inr ()"
    and "r_refund_type r = ''Sale''"
    and "r_sale r = Some sid"
    and "sales st sid = Some s"
  shows "Refund_save r st = (Inl TypeError, st)"
proof -
  have "refund_sale r sid (st\<lparr>refunds := refunds st @ [r]\<rparr>)
          = (Inl TypeError, st\<lparr>refunds := refunds st @ [r]\<rparr>)"
    using assms(4) by (intro refund_sale_raises [of _ _ s]) simp
  then have "Refund_save_body r st = (Inl TypeError, st\<lparr>refunds := refunds st @ [r]\<rparr>)"
    using assms(2,3) by (simp add: Refund_save_body_def Let_def)
  then show ?thesis
    using assms(1) by (simp add: Refund_save_def atomic_def)
qed

theorem sale_refund_raises_witness:
  "Refund_clean demo_refund approved_db = Inr () \<and>
   sales approved_db 1 =
     Some \<lparr>s_shop = 1, s_attendant = Some 7, s_total_amount = FloatOf 100,
           s_is_refunded = False, s_total_refunded_amount = 0\<rparr> \<and>
   Refund_save demo_refund approved_db = (Inl TypeError, approved_db)"
proof -
  have c: "Refund_clean demo_refund approved_db = Inr ()"
    by (simp add: Refund_clean_def approved_refund_request_def approved_db_def demo_db_def
        refund_approval_def demo_refund_def)
  have s: "sales approved_db 1 =
     Some \<lparr>s_shop = 1, s_attendant = Some 7, s_total_amount = FloatOf 100,
           s_is_refunded = False, s_total_refunded_amount = 0\<rparr>"
    by (simp add: approved_db_def demo_db_def)
  have "Refund_save demo_refund approved_db = (Inl TypeError, approved_db)"
    using sale_refund_raises [OF c _ _ s] by (simp add: demo_refund_def)
  then show ?thesis
    using c s by simp
qed

text \<open>
  C2 does not hold of the code. A refund that passes validation and whose target is an
  order in the database is not applied: \<^verbatim>\<open>order.total_amount -= self.refund_amount\<close>
  is a float minus a Decimal and raises TypeError; the refund row is rolled back, and
  the order keeps its total and its status. The witness is the order with line items 3
  and 2 and an approved refund of its three shirts.
\<close>

theorem order_refund_raises:
  assumes "Refund_clean r st = Inr ()"
    and "r_refund_type r = ''Order''"
    and "r_order r = Some oid"
    and "orders st oid = Some ord"
  shows "Refund_save r st = (Inl TypeError, st)"
proof -
  have "refund_order r oid (st\<lparr>refunds := refunds st @ [r]\<rparr>)
          = (Inl TypeError, st\<lparr>refunds := refunds st @ [r]\<rparr>)"
    using assms(4) by (intro refund_order_raises [of _ _ ord]) simp
  then have "Refund_save_body r st = (Inl TypeError, st\<lparr>refunds := refunds st @ [r]\<rparr>)"
    using assms(2,3) by (simp add: Refund_save_body_def Let_def)
  then show ?thesis
    using assms(1) by (simp add: Refund_save_def atomic_def)
qed

theorem order_refund_raises_witness:
  "Refund_clean order_refund_shirts approved_db = Inr () \<and>
   orders approved_db 1 =
     Some \<lparr>o_shop = 1, o_total_amount = FloatOf 190, o_status = ''Pending''\<rparr> \<and>
   Refund_save order_refund_shirts approved_db = (Inl TypeError, approved_db)"
proof -
  have c: "Refund_clean order_refund_shirts approved_db = Inr ()"
    by (simp add: Refund_clean_def approved_refund_request_def approved_db_def demo_db_def
        refund_approval_def order_refund_shirts_def)
  have ord: "orders approved_db 1 =
     Some \<lparr>o_shop = 1, o_total_amount = FloatOf 190, o_status = ''Pending''\<rparr>"
    by (simp add: approved_db_def demo_db_def)
  have "Refund_save order_refund_shirts approved_db = (Inl TypeError, approved_db)"
    using order_refund_raises [OF c _ _ ord] by (simp add: order_refund_shirts_def)
  then show ?thesis
    using c ord by simp
qed

text \<open>
  Every outcome of \<^verbatim>\<open>Refund.save\<close>: either the refund row is appended and nothing else
  changes, or the save raises and the database is as it was.
\<close>

lemma Refund_save_body_cases:
  "Refund_save_body r st = (Inr (), st\<lparr>refunds := refunds st @ [r]\<rparr>) \<or>
   (\<exists>e st'. Refund_save_body r st = (Inl e, st'))"
  using refund_sale_fails [of r _ "st\<lparr>refunds := refunds st @ [r]\<rparr>"]
    refund_order_fails [of r _ "st\<lparr>refunds := refunds st @ [r]\<rparr>"]
  by (auto simp: Refund_save_body_def Let_def split: option.splits)

lemma Refund_save_cases:
  "Refund_save r st = (Inr (), st\<lparr>refunds := refunds st @ [r]\<rparr>) \<or>
   (\<exists>e. Refund_save r st = (Inl e, st))"
  using Refund_save_body_cases [of r st]
  by (auto simp: Refund_save_def atomic_def split: sum.splits)

section \<open>Approvals and refunds\<close>

text \<open>
  C9 as stated fails: with a single Approved Refund request in the database, the same
  refund is saved twice in a row.
\<close>

theorem approval_reused_counterexample:
  "approval_requests approved_db = [refund_approval] \<and>
   fst (Refund_save targetless_refund approved_db) = Inr () \<and>
   fst (Refund_save targetless_refund (snd (Refund_save targetless_refund approved_db)))
     = Inr () \<and>
   refunds (snd (Refund_save targetless_refund
                   (snd (Refund_save targetless_refund approved_db))))
     = [targetless_refund, targetless_refund]"
  by (simp add: Refund_save_def Refund_clean_def approved_refund_request_def approved_db_def
        demo_db_def refund_approval_def targetless_refund_def Refund_save_body_def
        atomic_def Let_def)

lemma Refund_clean_frame:
  "approval_requests st' = approval_requests st \<Longrightarrow> products st' = products st \<Longrightarrow>
   Refund_clean r st' = Refund_clean r st"
  by (simp add: Refund_clean_def approved_refund_request_def split: option.splits)

lemma Refund_save_body_targetless:
  assumes "fst (Refund_save_body r st) = Inr ()"
  shows "(if r_refund_type r = ''Sale'' then r_sale r else None) = None \<and>
         (if r_refund_type r = ''Order'' then r_order r else None) = None"
proof (cases "if r_refund_type r = ''Sale'' then r_sale r else None")
  case (Some sid)
  obtain e where "refund_sale r sid (st\<lparr>refunds := refunds st @ [r]\<rparr>)
      = (Inl e, st\<lparr>refunds := refunds st @ [r]\<rparr>)"
    using refund_sale_fails by blast
  then have "fst (Refund_save_body r st) = Inl e"
    using Some by (simp add: Refund_save_body_def Let_def)
  then show ?thesis
    using assms by simp
next
  case None
  show ?thesis
  proof (cases "if r_refund_type r = ''Order'' then r_order r else None")
    case (Some oid)
    obtain e where "refund_order r oid (st\<lparr>refunds := refunds st @ [r]\<rparr>)
        = (Inl e, st\<lparr>refunds := refunds st @ [r]\<rparr>)"
      using refund_order_fails by blast
    then have "fst (Refund_save_body r st) = Inl e"
      using None Some by (simp add: Refund_save_body_def Let_def)
    then show ?thesis
      using assms by simp
  next
    case None': None
    show ?thesis
      using None None' by simp
  qed
qed

lemma Refund_save_success:
  "fst (Refund_save r st) = Inr () \<longleftrightarrow>
     Refund_clean r st = Inr () \<and> fst (Refund_save_body r st) = Inr ()"
proof (cases "Refund_clean r st")
  case (Inl e)
  then show ?thesis by (simp add: Refund_save_def)
next
  case (Inr u)
  obtain res st' where b: "Refund_save_body r st = (res, st')"
    by (cases "Refund_save_body r st")
  show ?thesis
    using Inr b by (cases res) (simp_all add: Refund_save_def atomic_def)
qed

text \<open>
  C9, amended. A refund is saved only if an Approved Refund request for its shop exists,
  and the approval is not used up: saving a refund changes no approval request and
  does not change how any refund is validated afterwards, so a refund that has been
  saved once is saved again on the same approval.
\<close>

theorem approval_not_consumed:
  "(fst (Refund_save r st) = Inr () \<longrightarrow> approved_refund_request st (r_shop r) \<noteq> None) \<and>
   approval_requests (snd (Refund_save r st)) = approval_requests st \<and>
   Refund_clean r' (snd (Refund_save r st)) = Refund_clean r' st \<and>
   (fst (Refund_save r st) = Inr () \<longrightarrow>
      fst (Refund_save r (snd (Refund_save r st))) = Inr ())"
proof -
  let ?st' = "snd (Refund_save r st)"
  have "?st' = st\<lparr>refunds := refunds st @ [r]\<rparr> \<or> ?st' = st"
    using Refund_save_cases [of r st] by (metis snd_conv)
  then have fr: "approval_requests ?st' = approval_requests st \<and> products ?st' = products st"
    by (elim disjE) simp_all
  have c: "\<And>x. Refund_clean x ?st' = Refund_clean x st"
    using fr by (intro Refund_clean_frame) simp_all
  have a: "approved_refund_request st (r_shop r) \<noteq> None" if ok: "fst (Refund_save r st) = Inr ()"
  proof -
    have "Refund_clean r st = Inr ()"
      using ok by (simp add: Refund_save_success)
    then show ?thesis
      by (simp add: Refund_clean_def split: option.splits)
  qed
  have again: "fst (Refund_save r ?st') = Inr ()" if ok: "fst (Refund_save r st) = Inr ()"
  proof -
    have cl: "Refund_clean r st = Inr ()" and body: "fst (Refund_save_body r st) = Inr ()"
      using ok by (simp_all add: Refund_save_success)
    have "fst (Refund_save_body r ?st') = Inr ()"
      using Refund_save_body_targetless [OF body] by (simp add: Refund_save_body_def Let_def)
    then show ?thesis
      using cl c [of r] by (simp add: Refund_save_success)
  qed
  show ?thesis
    using fr a c [of r'] again by simp
qed

theorem approval_not_consumed_witness:
  "fst (Refund_save targetless_refund approved_db) = Inr () \<and>
   approved_refund_request approved_db 1 = Some refund_approval \<and>
   approval_requests (snd (Refund_save targetless_refund approved_db)) = [refund_approval] \<and>
   fst (Refund_save targetless_refund (snd (Refund_save targetless_refund approved_db)))
     = Inr ()"
proof -
  have ok: "fst (Refund_save targetless_refund approved_db) = Inr ()"
    by (simp add: Refund_save_def Refund_clean_def approved_refund_request_def approved_db_def
        demo_db_def refund_approval_def targetless_refund_def Refund_save_body_def
        atomic_def Let_def)
  have ap: "approved_refund_request approved_db 1 = Some refund_approval"
    by (simp add: approved_refund_request_def approved_db_def demo_db_def refund_approval_def)
  have al: "approval_requests approved_db = [refund_approval]"
    by (simp add: approved_db_def)
  show ?thesis
    using approval_not_consumed [of targetless_refund approved_db targetless_refund] ok ap al
    by simp
qed

section \<open>Seller approval\<close>

lemma approve_ignores_actor: "approve actor pk st = approve actor' pk st"
  by (simp add: approve_def)

lemma approve_profiles: "profiles (snd (approve actor pk st)) = profiles st"
  by (simp add: approve_def save_approval_request_def send_notification_def Let_def
      split: option.splits)

lemma approve_seller_raises:
  "a_request_type self = ''Seller'' \<Longrightarrow> approve_seller self st = (Inl AttributeError, st)"
  by (simp add: approve_seller_def User_attributes_def)

text \<open>
  C8 does not hold of the code. The endpoint that approves a request never looks at the
  actor and changes no role: when an attendant (user 3) approves the Seller request of
  user 9, the status 'approved' is saved and what is raised afterwards is the TypeError
  of the notification call, not a refusal; and after a SuperUser (user 2) approves it
  user 9 is still a customer. \<^verbatim>\<open>approve_seller\<close>, which the endpoint does not call,
  tests the user who made the request and raises AttributeError on reading that user's
  role, whoever the actor is.
\<close>

theorem seller_approval_unchecked:
  "approve 3 1 seller_db =
     (Inl TypeError,
      seller_db\<lparr>approval_requests := [seller_request\<lparr>a_status := ''approved''\<rparr>]\<rparr>) \<and>
   approval_requests (snd (approve 2 1 seller_db)) =
     [seller_request\<lparr>a_status := ''approved''\<rparr>] \<and>
   profiles (snd (approve 2 1 seller_db)) 9 = Some \<lparr>pr_role = ''Customer''\<rparr> \<and>
   approve_seller seller_request seller_db = (Inl AttributeError, seller_db)"
  by (simp add: approve_def approve_seller_def save_approval_request_def send_notification_def
      User_attributes_def seller_db_def seller_request_def demo_db_def)

section \<open>Creating sales and orders\<close>

lemma Sale_objects_create_items:
  "sd_items validated_data = Some items_data \<Longrightarrow>
   Sale_objects_create validated_data st = (Inl TypeError, st)"
  by (simp add: Sale_objects_create_def model_init_def sale_data_keys_def Sale_fields_def
      split: option.splits)

text \<open>
  No sale is created: without the key \<^verbatim>\<open>items\<close> the method raises the no-items
  error, and with it the constructor of \<^verbatim>\<open>Sale\<close> refuses the keyword.
\<close>

lemma SaleSerializer_create_cases:
  "SaleSerializer_create validated_data st = (Inl NoItems, st) \<or>
   SaleSerializer_create validated_data st = (Inl TypeError, st)"
proof (cases "sd_items validated_data")
  case None
  then show ?thesis by (simp add: SaleSerializer_create_def)
next
  case (Some items_data)
  then show ?thesis
    using Sale_objects_create_items [OF Some, of st]
    by (simp add: SaleSerializer_create_def sale_create_body_def atomic_def)
qed

text \<open>A line of an order never gets its row: each path through the loop body raises.\<close>

lemma order_lines_raises:
  "\<exists>e. order_lines oid (item_data # rest) total' st = (Inl e, st)"
  by (simp add: model_init_def OrderItem_fields_def Let_def split: option.splits)

lemma OrderSerializer_create_cases:
  "(od_items validated_data = [] \<and>
    OrderSerializer_create validated_data st =
      (Inr (order_seq st),
       st\<lparr>orders := (orders st)(order_seq st \<mapsto>
              \<lparr>o_shop = od_shop validated_data, o_total_amount = FloatOf 0,
               o_status = od_status validated_data\<rparr>),
           order_seq := Suc (order_seq st)\<rparr>)) \<or>
   (od_items validated_data \<noteq> [] \<and>
    (\<exists>e. OrderSerializer_create validated_data st = (Inl e, st)))"
proof (cases "od_items validated_data")
  case Nil
  then show ?thesis
    by (simp add: OrderSerializer_create_def order_create_body_def Order_objects_create_def
        model_init_def Order_fields_def atomic_def Let_def)
next
  case (Cons item_data rest)
  obtain e where "order_lines (order_seq st) (item_data # rest) 0
      (st\<lparr>orders := (orders st)(order_seq st \<mapsto>
              \<lparr>o_shop = od_shop validated_data, o_total_amount = FloatOf 0,
               o_status = od_status validated_data\<rparr>),
           order_seq := Suc (order_seq st)\<rparr>) =
      (Inl e, st\<lparr>orders := (orders st)(order_seq st \<mapsto>
              \<lparr>o_shop = od_shop validated_data, o_total_amount = FloatOf 0,
               o_status = od_status validated_data\<rparr>),
           order_seq := Suc (order_seq st)\<rparr>)"
    using order_lines_raises by blast
  then show ?thesis
    using Cons
    by (simp add: OrderSerializer_create_def order_create_body_def Order_objects_create_def
        model_init_def Order_fields_def atomic_def Let_def)
qed

text \<open>
  The stock check of an order is reached for its first line only: nine hats as the
  first line are refused for their stock.
\<close>

lemma order_first_line_short:
  "OrderSerializer_create
     (short_order\<lparr>od_items := [\<lparr>ol_id = Some 2, ol_quantity = Some 9\<rparr>]\<rparr>) demo_db
   = (Inl (InsufficientStock ''hat''), demo_db)"
  by (simp add: OrderSerializer_create_def order_create_body_def Order_objects_create_def
      model_init_def Order_fields_def short_order_def demo_db_def atomic_def Let_def)

text \<open>
  C5 does not hold of the code. A sale of two shirts and nine hats, with four hats in
  stock, is refused, but not for its stock: as validation builds the data the method
  raises the no-items error, and with the lines under \<^verbatim>\<open>items\<close> the constructor of
  \<^verbatim>\<open>Sale\<close> raises TypeError, so the stock check is never reached. The order for
  the same lines raises TypeError when the line item of the shirts is created, before
  the hats are looked at. In each case the database is as it was.
\<close>

theorem insufficient_stock_not_reported:
  "SaleSerializer_create (validated_sale short_lines) demo_db = (Inl NoItems, demo_db) \<and>
   SaleSerializer_create (keyed_sale short_lines) demo_db = (Inl TypeError, demo_db) \<and>
   OrderSerializer_create short_order demo_db = (Inl TypeError, demo_db)"
proof -
  have a: "SaleSerializer_create (validated_sale short_lines) demo_db = (Inl NoItems, demo_db)"
    by (simp add: SaleSerializer_create_def validated_sale_def)
  have b: "SaleSerializer_create (keyed_sale short_lines) demo_db = (Inl TypeError, demo_db)"
    by (simp add: SaleSerializer_create_def sale_create_body_def Sale_objects_create_items
        keyed_sale_def short_lines_def atomic_def)
  have c: "OrderSerializer_create short_order demo_db = (Inl TypeError, demo_db)"
    by (simp add: OrderSerializer_create_def order_create_body_def Order_objects_create_def
        model_init_def Order_fields_def OrderItem_fields_def short_order_def demo_db_def
        atomic_def Let_def)
  show ?thesis
    using a b c by simp
qed


section \<open>Stock never goes below zero\<close>

text \<open>No request changes the table of products.\<close>

lemma handle_products: "products (handle rq st) = products st"
proof (cases rq)
  case (CreateSale d)
  then show ?thesis
    using SaleSerializer_create_cases [of d st] by auto
next
  case (CreateOrder d)
  then show ?thesis
    using OrderSerializer_create_cases [of d st] by auto
next
  case (ApplyRefund r)
  then show ?thesis
    using Refund_save_cases [of r st] by auto
qed

lemma run_products: "products (run rqs st) = products st"
  by (induction rqs arbitrary: st) (simp_all add: handle_products)

text \<open>
  C7. If no product has a negative quantity, then after any sequence of sale creations,
  order creations and refund applications (successful or refused) no product has a
  negative quantity.
\<close>

theorem stock_never_negative:
  "stock_nonneg st \<Longrightarrow> stock_nonneg (run rqs st)"
  by (simp add: stock_nonneg_def run_products)

theorem stock_never_negative_witness:
  "stock_nonneg approved_db \<and>
   stock_nonneg (run demo_requests approved_db) \<and>
   products (run demo_requests approved_db) =
     [1 \<mapsto> \<lparr>p_id = 1, p_name = ''shirt'', p_price = 50, p_quantity = 10\<rparr>,
      2 \<mapsto> \<lparr>p_id = 2, p_name = ''hat'', p_price = 20, p_quantity = 4\<rparr>] \<and>
   refunds (run demo_requests approved_db) = [targetless_refund]"
proof -
  have a: "stock_nonneg approved_db"
    by (simp add: stock_nonneg_def approved_db_def demo_db_def)
  have p: "products approved_db =
     [1 \<mapsto> \<lparr>p_id = 1, p_name = ''shirt'', p_price = 50, p_quantity = 10\<rparr>,
      2 \<mapsto> \<lparr>p_id = 2, p_name = ''hat'', p_price = 20, p_quantity = 4\<rparr>]"
    by (simp add: approved_db_def demo_db_def)
  have r: "refunds (run demo_requests approved_db) = [targetless_refund]"
    by (simp add: demo_requests_def keyed_sale_def good_lines_def good_order_def
        demo_refund_def targetless_refund_def approved_db_def demo_db_def refund_approval_def
        SaleSerializer_create_def sale_create_body_def Sale_objects_create_def
        sale_data_keys_def Sale_fields_def
        OrderSerializer_create_def order_create_body_def Order_objects_create_def
        model_init_def Order_fields_def OrderItem_fields_def
        Refund_save_def Refund_clean_def approved_refund_request_def Refund_save_body_def
        refund_sale_def atomic_def Let_def)
  show ?thesis
    using stock_never_negative [OF a, of demo_requests] a p r
    by (simp add: run_products)
qed

end
